theory Spec2Isabelle
  imports Complex_Main "HOL-Library.Product_Lexorder"
begin

section \<open>Python values\<close>

text \<open>
  The script \<open>defect.py\<close> computes with Python floats and ints. Floats are modelled
  as \<open>real\<close> (exact arithmetic), ints as \<open>int\<close>. Every place where the source
  raises is a branch of the model that returns the exception as a value.
\<close>

datatype py_error =
    ZeroDivisionError
  | IndexError
  | ValueError
  | KeyError
  | UnboundLocalError
  | AttributeError

text \<open>\<open>int(r)\<close> on a float truncates toward zero.\<close>

definition py_int :: "real \<Rightarrow> int" where
  "py_int r = (if 0 \<le> r then \<lfloor>r\<rfloor> else \<lceil>r\<rceil>)"

section \<open>Module level: the grid size adjustment (defect.py, lines 54-61 and 426)\<close>

text \<open>
  \<^verbatim>\<open>
  Nx = math.ceil(max_x / delta_x)
  if Nx % 2 == 0:  # even
      max_x = (1+Nx) * delta_x  # Add a delta_x
  \<close>
  The adjusted extent; the same code runs for the Y axis.
\<close>

definition adjust_extent :: "real \<Rightarrow> real \<Rightarrow> py_error + real" where
  "adjust_extent max_x delta_x =
     (if delta_x = 0 then Inl ZeroDivisionError
      else let Nx = \<lceil>max_x / delta_x\<rceil> in
        if Nx mod 2 = 0 then Inr ((1 + of_int Nx) * delta_x) else Inr max_x)"

text \<open>
  The number of samples of one axis of the simulation array,
  \<^verbatim>\<open>np.empty((max_iterations, int(max_x / delta_x), int(max_y / delta_y)))\<close>,
  taken from the adjusted extent.
\<close>

definition grid_samples :: "real \<Rightarrow> real \<Rightarrow> py_error + int" where
  "grid_samples max_x delta_x =
     (case adjust_extent max_x delta_x of
        Inl e \<Rightarrow> Inl e
      | Inr mx \<Rightarrow> Inr (py_int (mx / delta_x)))"

section \<open>Heat equation variables (defect.py, lines 415-419)\<close>

text \<open>
  \<^verbatim>\<open>
  delta_t = (delta_x * delta_y) / (4 * diffusion_coefficient)
  max_iterations = int(max_time / delta_t)  # number of iterations
  gamma = (diffusion_coefficient * delta_t) / (delta_x * delta_y)
  \<close>
  \<open>max_time\<close> is an int of the configuration file.
\<close>

definition delta_t :: "real \<Rightarrow> real \<Rightarrow> real \<Rightarrow> real" where
  "delta_t delta_x delta_y diffusion_coefficient =
     (delta_x * delta_y) / (4 * diffusion_coefficient)"

definition max_iterations :: "int \<Rightarrow> real \<Rightarrow> real \<Rightarrow> real \<Rightarrow> int" where
  "max_iterations max_time delta_x delta_y diffusion_coefficient =
     py_int (of_int max_time / delta_t delta_x delta_y diffusion_coefficient)"

definition gamma :: "real \<Rightarrow> real \<Rightarrow> real \<Rightarrow> real" where
  "gamma delta_x delta_y diffusion_coefficient =
     (diffusion_coefficient * delta_t delta_x delta_y diffusion_coefficient) / (delta_x * delta_y)"

text \<open>The three assignments in the source's order, each division raising on a zero divisor.\<close>

definition heat_equation_variables ::
  "int \<Rightarrow> real \<Rightarrow> real \<Rightarrow> real \<Rightarrow> py_error + (real \<times> int \<times> real)" where
  "heat_equation_variables max_time delta_x delta_y diffusion_coefficient =
     (if 4 * diffusion_coefficient = 0 then Inl ZeroDivisionError
      else if delta_t delta_x delta_y diffusion_coefficient = 0 then Inl ZeroDivisionError
      else if delta_x * delta_y = 0 then Inl ZeroDivisionError
      else Inr (delta_t delta_x delta_y diffusion_coefficient,
                max_iterations max_time delta_x delta_y diffusion_coefficient,
                gamma delta_x delta_y diffusion_coefficient))"

section \<open>Diffusion simulator (defect.py, lines 235-253 and 424-438)\<close>

text \<open>
  A time step of the simulation array is an image: a list of \<open>Nx\<close> rows (axis 0, the x
  index), each a list of \<open>Ny\<close> cells (axis 1, the y index). The array \<open>u\<close> is the list
  of its time steps.
\<close>

type_synonym image = "real list list"

text \<open>\<open>np.roll(a, shift, axis)\<close> along one axis: the element at \<open>i\<close> moves to \<open>i + shift\<close>, wrapping.\<close>

definition np_roll :: "int \<Rightarrow> 'a list \<Rightarrow> 'a list" where
  "np_roll shift xs =
     map (\<lambda>i. xs ! nat ((int i - shift) mod int (length xs))) [0..<length xs]"

text \<open>
  \<^verbatim>\<open>
  def image_shift_roll(img, x_roll, y_roll):
      img_roll = img.copy()
      img_roll = np.roll(img_roll, -y_roll, axis=0)  # Positive y rolls up
      img_roll = np.roll(img_roll, x_roll, axis=1)  # Positive x rolls right
      return img_roll
  \<close>
\<close>

definition image_shift_roll :: "image \<Rightarrow> int \<Rightarrow> int \<Rightarrow> image" where
  "image_shift_roll img x_roll y_roll = map (np_roll x_roll) (np_roll (- y_roll) img)"

text \<open>Elementwise arithmetic of arrays of one shape.\<close>

definition arr_add :: "image \<Rightarrow> image \<Rightarrow> image" where
  "arr_add a b = map2 (map2 (+)) a b"

definition arr_sub :: "image \<Rightarrow> image \<Rightarrow> image" where
  "arr_sub a b = map2 (map2 (-)) a b"

definition arr_scale :: "real \<Rightarrow> image \<Rightarrow> image" where
  "arr_scale c a = map (map ((*) c)) a"

text \<open>
  The right-hand side of the assignment to \<open>u[k + 1]\<close>:
  \<^verbatim>\<open>
  gamma * (image_shift_roll(u[k], 1, 0) + image_shift_roll(u[k], -1, 0) + image_shift_roll(u[k], 0, 1)
           + image_shift_roll(u[k], 0, -1) - 4 * u[k]) + u[k]
  \<close>
\<close>

definition heat_update :: "real \<Rightarrow> image \<Rightarrow> image" where
  "heat_update g uk =
     arr_add
       (arr_scale g
         (arr_sub
           (arr_add
             (arr_add
               (arr_add (image_shift_roll uk 1 0) (image_shift_roll uk (- 1) 0))
               (image_shift_roll uk 0 1))
             (image_shift_roll uk 0 (- 1)))
           (arr_scale 4 uk)))
       uk"

text \<open>
  The four assignments under the comment "Heat sink on all edges for all k", each over
  every time step of \<open>u\<close>; \<open>Nx\<close> is \<open>int(max_x / delta_x)\<close> and \<open>Ny\<close> is
  \<open>int(max_y / delta_y)\<close>:
  \<^verbatim>\<open>
  u[:, :, 0] = 0
  u[:, 0, :] = 0
  u[:, int(max_x / delta_x) - 1, 0] = 0
  u[:, :, int(max_y / delta_y) - 1] = 0
  \<close>
  The third assignment writes the single cell \<open>(Nx - 1, 0)\<close> of each time step.
\<close>

definition heat_sink :: "nat \<Rightarrow> nat \<Rightarrow> image list \<Rightarrow> image list" where
  "heat_sink Nx Ny u =
     (let u1 = map (map (\<lambda>row. row[0 := 0])) u;
          u2 = map (\<lambda>img. img[0 := map (\<lambda>_. 0) (img ! 0)]) u1;
          u3 = map (\<lambda>img. img[Nx - 1 := (img ! (Nx - 1))[0 := 0]]) u2;
          u4 = map (map (\<lambda>row. row[Ny - 1 := 0])) u3
      in u4)"

text \<open>
  \<^verbatim>\<open>
  def calculate2D(u):
      for k in range(0, max_iterations - 1, 1):
          u[k + 1] = gamma * (...) + u[k]
          u[:, :, 0] = 0
          ...
      return u
  \<close>
  \<open>u\<close> has the shape \<open>(max_iterations, Nx, Ny)\<close> it was allocated with. With one time
  step or none the loop body never runs; on an axis of size 0 the index 0 of the first
  heat sink assignment is out of bounds.
\<close>

definition calculate2D ::
  "real \<Rightarrow> nat \<Rightarrow> nat \<Rightarrow> nat \<Rightarrow> image list \<Rightarrow> py_error + image list" where
  "calculate2D g max_iter Nx Ny u =
     (if max_iter \<le> 1 then Inr u
      else if Nx = 0 \<or> Ny = 0 then Inl IndexError
      else Inr (fold (\<lambda>k u. heat_sink Nx Ny (u[k + 1 := heat_update g (u ! k)]))
                  [0..<max_iter - 1] u))"

text \<open>
  The initial condition (lines 426-438).
  \<^verbatim>\<open>
  u_initial = np.zeros((max_iterations, int(max_x / delta_x), int(max_y / delta_y)))
  for x in range(int(max_x / delta_x)):
      for y in range(int(max_y / delta_y)):
          if (((x * delta_x) >= (defect_center_x - defect_x / 2)) & ...):
              u_initial[0, x, y] = defect_temperature
  \<close>
  \<open>in_defect\<close> is the test of the loop body: the cell lies inside the defect's footprint.
\<close>

definition in_defect ::
  "real \<Rightarrow> real \<Rightarrow> real \<Rightarrow> real \<Rightarrow> real \<Rightarrow> real \<Rightarrow> nat \<Rightarrow> nat \<Rightarrow> bool" where
  "in_defect delta_x delta_y defect_center_x defect_center_y defect_x defect_y x y =
     (real x * delta_x \<ge> defect_center_x - defect_x / 2
      \<and> real y * delta_y \<ge> defect_center_y - defect_y / 2
      \<and> real x * delta_x \<le> defect_center_x + defect_x / 2
      \<and> real y * delta_y \<le> defect_center_y + defect_y / 2)"

text \<open>
  The array after the loop: the cells of time step 0 inside the footprint hold
  \<open>defect_temperature\<close>, every other cell of every time step is 0. \<open>np.zeros\<close>
  raises on a negative dimension; with no time step at all (\<open>max_iterations = 0\<close>) the
  write to \<open>u_initial[0, x, y]\<close> is out of bounds, so the loop raises as soon as a cell
  of the grid lies inside the footprint.
\<close>

definition u_initial ::
  "int \<Rightarrow> int \<Rightarrow> int \<Rightarrow> real \<Rightarrow> real \<Rightarrow> real \<Rightarrow> real \<Rightarrow> real \<Rightarrow> real \<Rightarrow> real \<Rightarrow>
     py_error + image list" where
  "u_initial max_iter Nx Ny delta_x delta_y defect_center_x defect_center_y defect_x defect_y
     defect_temperature =
     (if max_iter < 0 \<or> Nx < 0 \<or> Ny < 0 then Inl ValueError
      else if max_iter = 0
              \<and> list_ex (\<lambda>x. list_ex
                    (in_defect delta_x delta_y defect_center_x defect_center_y defect_x defect_y x)
                    [0..<nat Ny]) [0..<nat Nx]
        then Inl IndexError
      else Inr (map (\<lambda>t. map (\<lambda>x. map (\<lambda>y.
            if t = 0
               \<and> in_defect delta_x delta_y defect_center_x defect_center_y defect_x defect_y x y
            then defect_temperature else 0) [0..<nat Ny]) [0..<nat Nx]) [0..<nat max_iter]))"

text \<open>The boundary condition of one time step: every cell of the four edges is 0.\<close>

definition edges_zero :: "nat \<Rightarrow> nat \<Rightarrow> image \<Rightarrow> bool" where
  "edges_zero Nx Ny img =
     (list_all (\<lambda>x. img ! x ! 0 = 0 \<and> img ! x ! (Ny - 1) = 0) [0..<Nx]
      \<and> list_all (\<lambda>y. img ! 0 ! y = 0 \<and> img ! (Nx - 1) ! y = 0) [0..<Ny])"

text \<open>The shape of one time step: \<open>Nx\<close> rows of \<open>Ny\<close> cells.\<close>

definition shaped :: "nat \<Rightarrow> nat \<Rightarrow> image \<Rightarrow> bool" where
  "shaped Nx Ny img = (length img = Nx \<and> list_all (\<lambda>row. length row = Ny) img)"

text \<open>
  The part of the boundary condition the loop establishes: the edges \<open>y = 0\<close>,
  \<open>y = Ny - 1\<close> and \<open>x = 0\<close> are 0.
\<close>

definition three_edges_zero :: "nat \<Rightarrow> nat \<Rightarrow> image \<Rightarrow> bool" where
  "three_edges_zero Nx Ny img =
     (list_all (\<lambda>x. img ! x ! 0 = 0 \<and> img ! x ! (Ny - 1) = 0) [0..<Nx]
      \<and> list_all (\<lambda>y. img ! 0 ! y = 0) [0..<Ny])"

text \<open>The four heat sink assignments on one time step.\<close>

definition sink_image :: "nat \<Rightarrow> nat \<Rightarrow> image \<Rightarrow> image" where
  "sink_image Nx Ny img =
     (let i1 = map (\<lambda>row. row[0 := 0]) img;
          i2 = i1[0 := map (\<lambda>_. 0) (i1 ! 0)];
          i3 = i2[Nx - 1 := (i2 ! (Nx - 1))[0 := 0]]
      in map (\<lambda>row. row[Ny - 1 := 0]) i3)"

section \<open>Depth resampler: changeDataRes (defect.py, lines 257-310 and 463-468)\<close>

text \<open>
  A row of the data frames \<open>df\<close>, \<open>df_tmp\<close>, \<open>df_input\<close> and \<open>df_output\<close>: the
  columns \<open>time\<close>, \<open>x\<close>, \<open>y\<close> and \<open>data\<close>. A cell of the data column may be missing
  (pandas' NaN), which is \<open>None\<close>.
\<close>

record row =
  col_time :: real
  col_x :: real
  col_y :: real
  col_data :: "real option"

text \<open>\<open>Series.unique()\<close>: the distinct values in order of first appearance.\<close>

definition unique :: "'a list \<Rightarrow> 'a list" where
  "unique xs = rev (remdups (rev xs))"

text \<open>
  \<open>sort_values(by=['time', 'x', 'y'])\<close>. pandas leaves the order of rows with equal
  keys open; the model keeps their order.
\<close>

definition sort_values :: "row list \<Rightarrow> row list" where
  "sort_values df = sort_key (\<lambda>r. (col_time r, col_x r, col_y r)) df"

text \<open>\<open>argmin()\<close>: the first index of the least element; it raises on an empty array.\<close>

fun argmin_from :: "real list \<Rightarrow> nat \<Rightarrow> real \<Rightarrow> nat \<Rightarrow> nat" where
  "argmin_from [] i best best_index = best_index"
| "argmin_from (a # as) i best best_index =
     (if a < best then argmin_from as (Suc i) a i else argmin_from as (Suc i) best best_index)"

fun argmin :: "real list \<Rightarrow> py_error + nat" where
  "argmin [] = Inl ValueError"
| "argmin (a # as) = Inr (argmin_from as 1 a 0)"

text \<open>
  What a call of \<open>changeDataRes\<close> does: it returns a data frame, or prints
  "Error due to insufficient amount of data to interpolate. Extend time of simulation.."
  and returns \<open>None\<close>, or raises.
\<close>

datatype change_result = Returned "row list" | Returned_None | Raised py_error

text \<open>
  A cell of \<open>pivot_table(index=['x', 'y'], columns='time', values='data', aggfunc=np.mean)\<close>:
  the mean of the data of the rows of one point at one time, missing when there is none.
\<close>

definition group_mean :: "row list \<Rightarrow> real \<times> real \<Rightarrow> real \<Rightarrow> real option" where
  "group_mean rows xy t =
     (let vs = List.map_filter col_data
                 [r \<leftarrow> rows. (col_x r, col_y r) = xy \<and> col_time r = t]
      in if vs = [] then None else Some (sum_list vs / real (length vs)))"

text \<open>
  Lines 284-292, for the bracket \<open>start\<close>, \<open>stop\<close>:
  \<^verbatim>\<open>
  df_temp1 = df[(df['time'] == start) | (df['time'] == stop)]
  df_temp2 = df_temp1.pivot_table(index=['x', 'y'], columns='time', values='data', aggfunc=np.mean)
  df_temp2[value] = df_temp2.iloc[:, 0] + 1 / (df_temp2.columns[1] - df_temp2.columns[0]) * (
              df_temp2.iloc[:, 1] - df_temp2.iloc[:, 0])
  ...
  df_temp3 = df_temp3[df_temp3['time'] == value]
  \<close>
  The pivot table's columns are the times in ascending order and its index the points
  in ascending order, both taken from the rows that hold data; \<open>columns[1]\<close> raises when
  there is one column only.
\<close>

definition interpolate :: "row list \<Rightarrow> real \<Rightarrow> real \<Rightarrow> real \<Rightarrow> change_result" where
  "interpolate df v start stop =
     (let df_temp1 = [r \<leftarrow> df. col_time r = start \<or> col_time r = stop];
          valid = [r \<leftarrow> df_temp1. col_data r \<noteq> None];
          columns = sort (remdups (map col_time valid));
          index = sort (remdups (map (\<lambda>r. (col_x r, col_y r)) valid))
      in if length columns < 2 then Raised IndexError
         else Returned
           (map (\<lambda>xy. \<lparr>col_time = v, col_x = fst xy, col_y = snd xy,
                   col_data =
                     (case (group_mean valid xy (columns ! 0), group_mean valid xy (columns ! 1)) of
                        (Some d0, Some d1) \<Rightarrow>
                           Some (d0 + 1 / (columns ! 1 - columns ! 0) * (d1 - d0))
                      | _ \<Rightarrow> None)\<rparr>)
              index))"

text \<open>
  The body of the loop over the series, lines 265-293, for one required value:
  \<^verbatim>\<open>
  if value in df['time'].unique():
      df_temp3 = df[df['time'] == value].copy()
  else:
      difference_array = np.absolute(df['time'].unique() - value)
      index = difference_array.argmin()
      if df['time'].unique()[index] > value:
          start = df['time'].unique()[index - 1]
          stop = df['time'].unique()[index]
      else:
          start = df['time'].unique()[index]
          try:
              stop = df['time'].unique()[index + 1]
          except:
              print('Error due to insufficient amount of data to interpolate. Extend time of simulation..')
              return
  \<close>
  \<open>index - 1\<close> is \<open>-1\<close> for index 0, which Python reads as the last element.
\<close>

definition resample_value :: "row list \<Rightarrow> real \<Rightarrow> change_result" where
  "resample_value df v =
     (let times = unique (map col_time df) in
      if v \<in> set times then Returned [r \<leftarrow> df. col_time r = v]
      else
        (case argmin (map (\<lambda>t. \<bar>t - v\<bar>) times) of
           Inl e \<Rightarrow> Raised e
         | Inr index \<Rightarrow>
             if times ! index > v then
               interpolate df v
                 (times ! (if index = 0 then length times - 1 else index - 1)) (times ! index)
             else if index + 1 < length times then
               interpolate df v (times ! index) (times ! (index + 1))
             else Returned_None))"

text \<open>The loop \<open>for index1, value in series.items()\<close>, appending to \<open>df_tmp\<close>.\<close>

fun changeDataRes_loop :: "row list \<Rightarrow> real list \<Rightarrow> row list \<Rightarrow> change_result" where
  "changeDataRes_loop df [] df_tmp = Returned df_tmp"
| "changeDataRes_loop df (v # series) df_tmp =
     (case resample_value df v of
        Returned df_temp3 \<Rightarrow> changeDataRes_loop df series (df_tmp @ df_temp3)
      | Returned_None \<Rightarrow> Returned_None
      | Raised e \<Rightarrow> Raised e)"

text \<open>
  The whole function: the loop, the sort, the removal of the times farther than 0.01
  from every value of the series, the second sort. An empty \<open>df_tmp\<close> has no column
  \<open>time\<close> to sort by.
\<close>

definition changeDataRes :: "row list \<Rightarrow> real list \<Rightarrow> change_result" where
  "changeDataRes df series =
     (case changeDataRes_loop df series [] of
        Returned df_tmp \<Rightarrow>
          if df_tmp = [] then Raised KeyError
          else Returned (sort_values
                 [r \<leftarrow> sort_values df_tmp. list_ex (\<lambda>s. \<bar>s - col_time r\<bar> < 0.01) series])
      | Returned_None \<Rightarrow> Returned_None
      | Raised e \<Rightarrow> Raised e)"

text \<open>
  The caller, lines 463-468: the series is the column \<open>total_thickness\<close> of the layers at
  or above the defect, and \<open>df2 = df_changeDataRes.copy()\<close> raises on \<open>None\<close>.
\<close>

definition resample_stage :: "row list \<Rightarrow> real list \<Rightarrow> py_error + row list" where
  "resample_stage df total_thickness_column =
     (case changeDataRes df [t \<leftarrow> total_thickness_column. t \<ge> 0] of
        Returned df_changeDataRes \<Rightarrow> Inr df_changeDataRes
      | Returned_None \<Rightarrow> Inl AttributeError
      | Raised e \<Rightarrow> Inl e)"

section \<open>Overlap resolver: detectOverwriteOverlap (defect.py, lines 314-356)\<close>

text \<open>\<open>df[df['time'] == t]\<close>: the rows of one depth slice, in the frame's order.\<close>

definition slice :: "row list \<Rightarrow> real \<Rightarrow> row list" where
  "slice df t = [r \<leftarrow> df. col_time r = t]"

text \<open>
  A pandas Series after \<open>reset_index\<close> is a list of cells labelled \<open>0, 1, ...\<close>; a label
  past its end is missing. Arithmetic of two Series aligns them on the labels of both.
\<close>

definition cell_at :: "real option list \<Rightarrow> nat \<Rightarrow> real option" where
  "cell_at s i = (if i < length s then s ! i else None)"

definition fillna0 :: "real option \<Rightarrow> real" where
  "fillna0 c = (case c of None \<Rightarrow> 0 | Some d \<Rightarrow> d)"

text \<open>
  \<open>a.subtract(b, fill_value=0)\<close>: a cell missing on one side counts as 0, a cell missing
  on both sides stays missing.
\<close>

definition series_subtract_fill0 :: "real option list \<Rightarrow> real option list \<Rightarrow> real option list" where
  "series_subtract_fill0 a b =
     map (\<lambda>i. if cell_at a i = None \<and> cell_at b i = None then None
              else Some (fillna0 (cell_at a i) - fillna0 (cell_at b i)))
       [0..<max (length a) (length b)]"

text \<open>\<open>(a + b) / 2\<close>: a cell missing on either side is missing in the result.\<close>

definition series_average :: "real option list \<Rightarrow> real option list \<Rightarrow> real option list" where
  "series_average a b =
     map (\<lambda>i. case (cell_at a i, cell_at b i) of
                 (Some p, Some q) \<Rightarrow> Some ((p + q) / 2)
               | _ \<Rightarrow> None)
       [0..<max (length a) (length b)]"

text \<open>\<open>Series.min()\<close> skips missing cells; with no cell left it is NaN.\<close>

definition series_min :: "real option list \<Rightarrow> real option" where
  "series_min s =
     (case List.map_filter id s of [] \<Rightarrow> None | v # vs \<Rightarrow> Some (fold min vs v))"

text \<open>\<open>min(axis=1)\<close> of two columns, row by row, skipping a missing cell.\<close>

definition min_skipna :: "real option \<Rightarrow> real option \<Rightarrow> real option" where
  "min_skipna p q =
     (case p of None \<Rightarrow> q
      | Some a \<Rightarrow> (case q of None \<Rightarrow> Some a | Some b \<Rightarrow> Some (min a b)))"

text \<open>\<open>df['data'] = s\<close>: the cell of the Series with the row's label, missing past its end.\<close>

definition set_data :: "row list \<Rightarrow> real option list \<Rightarrow> row list" where
  "set_data df s = map (\<lambda>i. (df ! i)\<lparr>col_data := cell_at s i\<rparr>) [0..<length df]"

text \<open>\<open>df['data'] = df['data'] + df['time']\<close> and \<open>df['data'] = df['data'] - df['time']\<close>.\<close>

definition add_time :: "row list \<Rightarrow> row list" where
  "add_time df = map (\<lambda>r. r\<lparr>col_data := map_option (\<lambda>d. d + col_time r) (col_data r)\<rparr>) df"

definition sub_time :: "row list \<Rightarrow> row list" where
  "sub_time df = map (\<lambda>r. r\<lparr>col_data := map_option (\<lambda>d. d - col_time r) (col_data r)\<rparr>) df"

text \<open>
  The source evaluates \<open>df_input.time.unique()\<close> wherever it needs the depths; the
  model evaluates it once, in \<open>detectOverwriteOverlap\<close>, and passes the list on as
  \<open>time_values\<close>.

  The overlap test of one pass of the loop (lines 321-334): the previous slice comes from
  \<open>df_output\<close>, the current one from \<open>df_input\<close>.
  \<^verbatim>\<open>
  df_prevline = df_output[df_output['time'] == df_input.time.unique()[counter_line - 1]].copy()
  df_curline = df_input[df_input['time'] == df_input.time.unique()[counter_line]].copy()
  df_prevline['data'] = df_prevline['data'] + df_prevline['time']
  df_curline['data'] = df_curline['data'] + df_curline['time']
  df_check_overlap = df_curline['data'].subtract(df_prevline['data'], fill_value=0)
  ...
  if df_check_overlap.min() < 0:
  \<close>
\<close>

definition overlap_detected :: "row list \<Rightarrow> real list \<Rightarrow> nat \<Rightarrow> row list \<Rightarrow> bool" where
  "overlap_detected df_input time_values counter_line df_output =
     (let df_prevline = add_time (slice df_output (time_values ! (counter_line - 1)));
          df_curline = add_time (slice df_input (time_values ! counter_line));
          df_check_overlap =
            series_subtract_fill0 (map col_data df_curline) (map col_data df_prevline)
      in case series_min df_check_overlap of None \<Rightarrow> False | Some m \<Rightarrow> m < 0)"

text \<open>
  The new \<open>df_output\<close> of one pass (lines 332-348).
  \<^verbatim>\<open>
  df_prevline['data'] = df_prevline['data'] - df_prevline['time']
  df_curline['data'] = df_curline['data'] - df_curline['time']
  if df_check_overlap.min() < 0:
      ...
      if counter_line == 1:
          df_prevline['data_line1'] = df_curline['data']
          df_prevline['data_min'] = df_prevline[['data', 'data_line1']].min(axis=1)
          df_prevline.drop(columns=['data', 'data_line1'], inplace=True)
          df_prevline.rename(columns={'data_min': 'data'}, inplace=True)
          df_output = df_prevline.copy()
      else:
          df_curline['data'] = (df_prevline['data'] + df_nextline['data']) / 2
          df_output = df_output.append(df_curline, ignore_index=True)
  else:
      df_output = df_output.append(df_curline, ignore_index=True)
  \<close>
\<close>

definition resolve_line :: "row list \<Rightarrow> real list \<Rightarrow> nat \<Rightarrow> row list \<Rightarrow> row list" where
  "resolve_line df_input time_values counter_line df_output =
     (let df_prevline = sub_time (add_time (slice df_output (time_values ! (counter_line - 1))));
          df_curline = sub_time (add_time (slice df_input (time_values ! counter_line)));
          df_nextline = slice df_input (time_values ! (counter_line + 1))
      in if overlap_detected df_input time_values counter_line df_output then
           if counter_line = 1 then
             set_data df_prevline
               (map (\<lambda>i. min_skipna (col_data (df_prevline ! i)) (cell_at (map col_data df_curline) i))
                  [0..<length df_prevline])
           else
             df_output @
               set_data df_curline
                 (series_average (map col_data df_prevline) (map col_data df_nextline))
         else df_output @ df_curline)"

text \<open>
  How the function ends other than by returning: \<open>sys.exit\<close> with the diagnostic
  "Too many overlaps. Diffusion Coefficient too high. Reduce and try again...", or an
  exception.
\<close>

datatype failure = Too_many_overlaps | Exception py_error

text \<open>
  The loop (lines 320-352). \<open>df_nextline\<close> is unbound until the body has run once.
  \<^verbatim>\<open>
  while counter_line <= len(df_input.time.unique()) - 2:
      ...
      counter_line += 1
      if counter_overlap / len(df_input.time.unique()) > 0.25:
          sys.exit(...)
  \<close>
\<close>

function overlap_loop ::
  "row list \<Rightarrow> real list \<Rightarrow> nat \<Rightarrow> nat \<Rightarrow> row list \<Rightarrow> row list option \<Rightarrow>
     failure + (row list \<times> row list option)" where
  "overlap_loop df_input time_values counter_line counter_overlap df_output df_nextline =
     (if counter_line + 2 \<le> length time_values then
        (let counter_overlap' =
               (if overlap_detected df_input time_values counter_line df_output
                then counter_overlap + 1 else counter_overlap);
             df_output' = resolve_line df_input time_values counter_line df_output;
             df_nextline' = slice df_input (time_values ! (counter_line + 1))
         in if real counter_overlap' / real (length time_values) > 0.25
            then Inl Too_many_overlaps
            else overlap_loop df_input time_values (counter_line + 1) counter_overlap' df_output'
                   (Some df_nextline'))
      else Inr (df_output, df_nextline))"
  by pat_completeness auto
termination
  by (relation "measure (\<lambda>(df_input, time_values, counter_line, _). length time_values - counter_line)") auto

declare overlap_loop.simps [simp del]

text \<open>
  The whole function: \<open>df_output\<close> starts as the first slice; after the loop the last
  \<open>df_nextline\<close> is appended and the rows are sorted.
\<close>

definition detectOverwriteOverlap :: "row list \<Rightarrow> failure + row list" where
  "detectOverwriteOverlap df_input =
     (let time_values = unique (map col_time df_input) in
      if time_values = [] then Inl (Exception IndexError)
      else
        (case overlap_loop df_input time_values 1 0 (slice df_input (time_values ! 0)) None of
           Inl e \<Rightarrow> Inl e
         | Inr (df_output, None) \<Rightarrow> Inl (Exception UnboundLocalError)
         | Inr (df_output, Some df_nextline) \<Rightarrow> Inr (sort_values (df_output @ df_nextline))))"

text \<open>
  The passes of the loop that run on an input, in order: the value of \<open>counter_line\<close>
  in the pass and the outcome of its overlap test. The list ends with the pass that
  exits, when one does.
\<close>

function overlap_passes ::
  "row list \<Rightarrow> real list \<Rightarrow> nat \<Rightarrow> nat \<Rightarrow> row list \<Rightarrow> (nat \<times> bool) list" where
  "overlap_passes df_input time_values counter_line counter_overlap df_output =
     (if counter_line + 2 \<le> length time_values then
        (let counter_overlap' =
               (if overlap_detected df_input time_values counter_line df_output
                then counter_overlap + 1 else counter_overlap);
             df_output' = resolve_line df_input time_values counter_line df_output
         in (counter_line, overlap_detected df_input time_values counter_line df_output) #
            (if real counter_overlap' / real (length time_values) > 0.25
             then []
             else overlap_passes df_input time_values (counter_line + 1) counter_overlap' df_output'))
      else [])"
  by pat_completeness auto
termination
  by (relation "measure (\<lambda>(df_input, time_values, counter_line, _). length time_values - counter_line)") auto

declare overlap_passes.simps [simp del]


text \<open>The number of passes of a list whose overlap test succeeded.\<close>

definition detections :: "(nat \<times> bool) list \<Rightarrow> nat" where
  "detections ps = length (filter snd ps)"

text \<open>
  The adjacent pairs of slices of the input that overlap, each named by the index of
  its upper slice: the overlap test of the pair, with the input itself as the frame
  the previous slice is read from.
\<close>

definition overlapping_pairs :: "row list \<Rightarrow> nat list" where
  "overlapping_pairs df_input =
     [k \<leftarrow> [1..<length (unique (map col_time df_input))].
        overlap_detected df_input (unique (map col_time df_input)) k df_input]"

text \<open>The slices of a one-cell frame: the cell \<open>(0, 0)\<close> at the depths \<open>0, 1, 2, ...\<close>.\<close>

definition one_cell_frame :: "real list \<Rightarrow> row list" where
  "one_cell_frame ds =
     map (\<lambda>i. \<lparr>col_time = real i, col_x = 0, col_y = 0, col_data = Some (ds ! i)\<rparr>)
       [0..<length ds]"

section \<open>Mask classifier (defect.py, lines 626-657)\<close>

text \<open>
  A row of \<open>df_total\<close>, the grid at the z resolution merged with the layers: the columns
  \<open>x\<close>, \<open>y\<close>, \<open>data\<close> (the height), \<open>layer number\<close>, \<open>material\<close> and \<open>thickness\<close>.
  The last three are missing (NaN) where the forward merge found no layer.
\<close>

record voxel =
  v_x :: real
  v_y :: real
  v_data :: real
  v_layer_number :: "real option"
  v_material :: "string option"
  v_thickness :: "real option"

text \<open>
  A polygon of the absorber layer, as the classifier uses it: the test
  \<open>Polygon(mask_points).buffer(1E-9).contains(Point(x, y))\<close> of the geometry library.
\<close>

type_synonym polygon = "real \<times> real \<Rightarrow> bool"

text \<open>
  \<^verbatim>\<open>
  df_xy = df_total[['x', 'y']].sort_values(by=['x', 'y']).drop_duplicates().reset_index(drop=True)
  df_xy['inside_polygon'] = False  # default
  \<close>
\<close>

definition df_xy_points :: "voxel list \<Rightarrow> (real \<times> real) list" where
  "df_xy_points df_total = unique (sort (map (\<lambda>r. (v_x r, v_y r)) df_total))"

text \<open>
  The loop over the polygons of the layer and, inside it, over the rows of \<open>df_xy\<close>:
  \<^verbatim>\<open>
  for index, row in df_xy.iterrows():
      # if it is already true, do not check again.
      if row['inside_polygon'] == True:
          pass
      else:
          df_xy.loc[index, 'inside_polygon'] = Polygon(mask_points).buffer(1E-9).contains(
              Point(row['x'], row['y']))
  \<close>
\<close>

definition mark_inside ::
  "polygon list \<Rightarrow> (real \<times> real) list \<Rightarrow> ((real \<times> real) \<times> bool) list" where
  "mark_inside polygons points =
     fold (\<lambda>poly df_xy.
             map (\<lambda>(p, inside_polygon). (p, if inside_polygon then True else poly p)) df_xy)
       polygons (map (\<lambda>p. (p, False)) points)"

text \<open>\<open>df_total['material'].isin(absorber_layers)\<close>; a missing material is in no list.\<close>

definition is_absorber :: "string list \<Rightarrow> voxel \<Rightarrow> bool" where
  "is_absorber absorber_layers r =
     (case v_material r of None \<Rightarrow> False | Some m \<Rightarrow> m \<in> set absorber_layers)"

text \<open>
  \<open>.merge(df_xy, on=['x', 'y'], how='left')\<close>: every row of the left frame, in its
  order, once for each row of \<open>df_xy\<close> with its point, and once with a missing
  \<open>inside_polygon\<close> when there is none.
\<close>

definition merge_left ::
  "voxel list \<Rightarrow> ((real \<times> real) \<times> bool) list \<Rightarrow> (voxel \<times> bool option) list" where
  "merge_left rows df_xy =
     concat (map (\<lambda>r.
        case [inside_polygon. (p, inside_polygon) \<leftarrow> df_xy, p = (v_x r, v_y r)] of
          [] \<Rightarrow> [(r, None)]
        | bs \<Rightarrow> map (\<lambda>b. (r, Some b)) bs) rows)"

text \<open>
  \<^verbatim>\<open>
  df_total_toplayers = df_total[df_total['material'].isin(absorber_layers)].merge(df_xy, on=['x', 'y'], how='left')
  df_total_toplayers.loc[df_total_toplayers.inside_polygon == pos_tone, 'material'] = 'air'
  df_total_toplayers.drop(columns=['inside_polygon'], inplace=True)
  df_total_new = df_total[~df_total['material'].isin(absorber_layers)].append(df_total_toplayers)
  \<close>
\<close>

definition apply_mask :: "string list \<Rightarrow> bool \<Rightarrow> polygon list \<Rightarrow> voxel list \<Rightarrow> voxel list" where
  "apply_mask absorber_layers pos_tone polygons df_total =
     (let df_xy = mark_inside polygons (df_xy_points df_total);
          df_total_toplayers =
            map (\<lambda>(r, inside_polygon).
                   if inside_polygon = Some pos_tone then r\<lparr>v_material := Some ''air''\<rparr> else r)
              (merge_left [r \<leftarrow> df_total. is_absorber absorber_layers r] df_xy)
      in [r \<leftarrow> df_total. \<not> is_absorber absorber_layers r] @ df_total_toplayers)"

text \<open>The containment result of a point: some polygon of the layer contains it.\<close>

definition inside_some_polygon :: "polygon list \<Rightarrow> real \<times> real \<Rightarrow> bool" where
  "inside_some_polygon polygons p = list_ex (\<lambda>poly. poly p) polygons"

section \<open>Properties of the grid size adjustment\<close>

lemma grid_samples_even_ceiling:
  assumes "0 < delta_x" and "0 \<le> max_x" and "even \<lceil>max_x / delta_x\<rceil>"
  shows "grid_samples max_x delta_x = Inr (1 + \<lceil>max_x / delta_x\<rceil>)"
proof -
  have "0 \<le> max_x / delta_x"
    using assms(1,2) by simp
  then have c: "0 \<le> \<lceil>max_x / delta_x\<rceil>"
    by (simp add: zero_le_ceiling)
  have "py_int (1 + of_int \<lceil>max_x / delta_x\<rceil>) = 1 + \<lceil>max_x / delta_x\<rceil>"
    using c by (simp add: py_int_def)
  then show ?thesis
    using assms by (simp add: grid_samples_def adjust_extent_def Let_def)
qed

text \<open>
  C10. The claim: after the adjustment both sample counts are odd. The code tests the
  parity of the ceiling of \<open>max_x / delta_x\<close> but allocates \<open>int(max_x / delta_x)\<close>
  samples. For an extent of 5 and a delta of 2 the ceiling is 3 (odd), the extent is
  left alone, and the array gets 2 samples: an even number.
\<close>

theorem grid_samples_even_at_5_2:
  "grid_samples 5 2 = Inr 2 \<and> adjust_extent 5 2 = Inr 5 \<and> even (2::int)"
proof -
  have c: "\<lceil>(5::real) / 2\<rceil> = 3" by (simp add: ceiling_eq_iff)
  have f: "\<lfloor>(5::real) / 2\<rfloor> = 2" by (simp add: floor_eq_iff)
  show ?thesis
    using c f by (simp add: grid_samples_def adjust_extent_def py_int_def)
qed

section \<open>Properties of the heat equation variables\<close>

text \<open>
  C6. For a positive diffusion coefficient, positive grid deltas and a time budget that
  is not negative, the three assignments succeed, the stability constant is exactly one
  quarter and the number of iterations is the floor of the time budget over the time
  step.
\<close>

theorem gamma_quarter:
  assumes "0 < D" and "0 < dx" and "0 < dy" and "0 \<le> max_time"
  shows "heat_equation_variables max_time dx dy D =
           Inr ((dx * dy) / (4 * D), \<lfloor>of_int max_time / ((dx * dy) / (4 * D))\<rfloor>, 1 / 4)"
proof -
  have dt: "0 < delta_t dx dy D"
    using assms by (simp add: delta_t_def)
  have g: "gamma dx dy D = 1 / 4"
    using assms by (simp add: gamma_def delta_t_def)
  have "0 \<le> of_int max_time / delta_t dx dy D"
    using dt assms(4) by simp
  then have n: "max_iterations max_time dx dy D = \<lfloor>of_int max_time / delta_t dx dy D\<rfloor>"
    by (simp add: max_iterations_def py_int_def)
  show ?thesis
    using assms dt g n
    by (simp add: heat_equation_variables_def) (simp add: delta_t_def)
qed

theorem gamma_quarter_witness:
  "(0::real) < 1 / 100 \<and> (0::real) < 2 \<and> (0::int) \<le> 100 \<and>
   heat_equation_variables 100 2 2 (1 / 100) = Inr (100, 1, 1 / 4)"
  using gamma_quarter [of "1 / 100" 2 2 100] by simp

section \<open>Properties of the diffusion simulator\<close>

text \<open>
  What the loop does establish. On an array of at least two time steps of the shape
  \<open>Nx\<close> by \<open>Ny\<close>, both positive, \<open>calculate2D\<close> returns, and every time step
  of the result has its edges \<open>y = 0\<close>, \<open>y = Ny - 1\<close> and \<open>x = 0\<close> at 0.
\<close>

lemma shapedI: "length img = Nx \<Longrightarrow> (\<And>i. i < Nx \<Longrightarrow> length (img ! i) = Ny) \<Longrightarrow> shaped Nx Ny img"
  by (auto simp: shaped_def list_all_length)

lemma shapedD: "shaped Nx Ny img \<Longrightarrow> length img = Nx" "shaped Nx Ny img \<Longrightarrow> i < Nx \<Longrightarrow> length (img ! i) = Ny"
  by (auto simp: shaped_def list_all_length)

lemma np_roll_length [simp]: "length (np_roll s xs) = length xs"
  by (simp add: np_roll_def)

lemma np_roll_nth: "i < length xs \<Longrightarrow> \<exists>j<length xs. np_roll s xs ! i = xs ! j"
proof -
  assume i: "i < length xs"
  then have "0 < int (length xs)" by auto
  then have "0 \<le> (int i - s) mod int (length xs)"
    and "(int i - s) mod int (length xs) < int (length xs)"
    by simp_all
  then have "nat ((int i - s) mod int (length xs)) < length xs"
    by linarith
  then show ?thesis using i by (auto simp: np_roll_def)
qed

lemma shaped_roll: "shaped Nx Ny img \<Longrightarrow> shaped Nx Ny (image_shift_roll img a b)"
proof (rule shapedI)
  assume s: "shaped Nx Ny img"
  show "length (image_shift_roll img a b) = Nx"
    using s by (simp add: image_shift_roll_def shaped_def)
  fix i assume i: "i < Nx"
  then obtain j where "j < Nx" "np_roll (- b) img ! i = img ! j"
    using np_roll_nth [of i img "- b"] s by (auto simp: shaped_def)
  then show "length (image_shift_roll img a b ! i) = Ny"
    using s i by (simp add: image_shift_roll_def shapedD)
qed

lemma shaped_add: "shaped Nx Ny a \<Longrightarrow> shaped Nx Ny b \<Longrightarrow> shaped Nx Ny (arr_add a b)"
  by (rule shapedI) (simp_all add: arr_add_def shapedD)

lemma shaped_sub: "shaped Nx Ny a \<Longrightarrow> shaped Nx Ny b \<Longrightarrow> shaped Nx Ny (arr_sub a b)"
  by (rule shapedI) (simp_all add: arr_sub_def shapedD)

lemma shaped_scale: "shaped Nx Ny a \<Longrightarrow> shaped Nx Ny (arr_scale c a)"
  by (rule shapedI) (simp_all add: arr_scale_def shapedD)

lemma shaped_update: "shaped Nx Ny uk \<Longrightarrow> shaped Nx Ny (heat_update g uk)"
  by (simp add: heat_update_def shaped_add shaped_sub shaped_scale shaped_roll)

lemma heat_sink_map: "heat_sink Nx Ny u = map (sink_image Nx Ny) u"
  by (simp add: heat_sink_def sink_image_def Let_def comp_def)

lemma heat_sink_image:
  assumes "shaped Nx Ny img" and "0 < Nx" and "0 < Ny"
  shows "shaped Nx Ny (sink_image Nx Ny img)"
    and "three_edges_zero Nx Ny (sink_image Nx Ny img)"
proof -
  have l: "length img = Nx" and r: "\<And>i. i < Nx \<Longrightarrow> length (img ! i) = Ny"
    using assms(1) by (simp_all add: shapedD)
  show "shaped Nx Ny (sink_image Nx Ny img)"
    using l r assms(2,3) by (intro shapedI) (auto simp: sink_image_def Let_def nth_list_update)
  show "three_edges_zero Nx Ny (sink_image Nx Ny img)"
    using l r assms(2,3)
    by (auto simp: sink_image_def Let_def three_edges_zero_def list_all_length nth_list_update)
qed

lemma heat_sink_all:
  assumes "list_all (shaped Nx Ny) u" and "0 < Nx" and "0 < Ny"
  shows "list_all (\<lambda>img. shaped Nx Ny img \<and> three_edges_zero Nx Ny img) (heat_sink Nx Ny u)"
  using assms heat_sink_image [of Nx Ny]
  unfolding heat_sink_map by (simp add: list_all_iff)

lemma loop_shaped:
  assumes "0 < Nx" and "0 < Ny"
  shows "list_all (shaped Nx Ny) u \<Longrightarrow> \<forall>k\<in>set ks. k < length u \<Longrightarrow>
         list_all (shaped Nx Ny)
           (fold (\<lambda>k u. heat_sink Nx Ny (u[k + 1 := heat_update g (u ! k)])) ks u)
       \<and> length (fold (\<lambda>k u. heat_sink Nx Ny (u[k + 1 := heat_update g (u ! k)])) ks u) = length u"
proof (induction ks arbitrary: u)
  case Nil
  then show ?case by simp
next
  case (Cons k ks)
  have uk: "shaped Nx Ny (u ! k)"
    using Cons.prems by (simp add: list_all_length)
  have "list_all (shaped Nx Ny) (u[k + 1 := heat_update g (u ! k)])"
    using Cons.prems(1) shaped_update [OF uk, of g]
    by (auto simp: list_all_iff dest!: set_update_subset_insert [THEN subsetD])
  then have a: "list_all (shaped Nx Ny) (heat_sink Nx Ny (u[k + 1 := heat_update g (u ! k)]))"
    using heat_sink_all [OF _ assms] by (simp add: list_all_iff)
  have b: "length (heat_sink Nx Ny (u[k + 1 := heat_update g (u ! k)])) = length u"
    by (simp add: heat_sink_map)
  show ?case
    using Cons.IH [OF a] Cons.prems(2) b by simp
qed

lemma calculate2D_three_edges:
  assumes "2 \<le> max_iter" and "length u = max_iter" and "0 < Nx" and "0 < Ny"
    and "list_all (shaped Nx Ny) u"
  shows "\<exists>u'. calculate2D g max_iter Nx Ny u = Inr u'
           \<and> list_all (\<lambda>img. shaped Nx Ny img \<and> three_edges_zero Nx Ny img) u'"
proof -
  obtain m where m: "max_iter - 1 = Suc m" using assms(1) by (cases "max_iter - 1") auto
  let ?step = "\<lambda>k u. heat_sink Nx Ny (u[k + 1 := heat_update g (u ! k)])"
  let ?X = "fold ?step [0..<m] u"
  have ks: "\<forall>k\<in>set [0..<m]. k < length u"
    using m assms(2) by auto
  have X: "list_all (shaped Nx Ny) ?X \<and> length ?X = length u"
    by (rule loop_shaped [OF assms(3,4) assms(5) ks])
  have mX: "shaped Nx Ny (?X ! m)"
    using X m assms(2) by (simp add: list_all_length)
  have "list_all (shaped Nx Ny) (?X[m + 1 := heat_update g (?X ! m)])"
    using X shaped_update [OF mX, of g]
    by (auto simp: list_all_iff dest!: set_update_subset_insert [THEN subsetD])
  then have "list_all (\<lambda>img. shaped Nx Ny img \<and> three_edges_zero Nx Ny img)
               (heat_sink Nx Ny (?X[m + 1 := heat_update g (?X ! m)]))"
    by (rule heat_sink_all [OF _ assms(3,4)])
  moreover have "calculate2D g max_iter Nx Ny u =
                   Inr (heat_sink Nx Ny (?X[m + 1 := heat_update g (?X ! m)]))"
    using assms(1,3,4) m by (simp add: calculate2D_def)
  ultimately show ?thesis by simp
qed

text \<open>
  C1. The claim: after every step all cells of all four edges are 0. The third heat sink
  assignment clears one cell of the row \<open>x = Nx - 1\<close>, not the row. On a 3 by 3 grid
  with two time steps and the defect (temperature 4) on the centre cell, the step
  leaves 1 in the cell \<open>(2, 1)\<close> of time step 1, a cell of the edge \<open>x = Nx - 1\<close>.
\<close>

theorem calculate2D_last_row_not_zero:
  "u_initial 2 3 3 2 2 2 2 1 1 4 =
     Inr [[[0, 0, 0], [0, 4, 0], [0, 0, 0]], [[0, 0, 0], [0, 0, 0], [0, 0, 0]]]
   \<and> calculate2D (1 / 4) 2 3 3
       [[[0, 0, 0], [0, 4, 0], [0, 0, 0]], [[0, 0, 0], [0, 0, 0], [0, 0, 0]]] =
     Inr [[[0, 0, 0], [0, 4, 0], [0, 0, 0]], [[0, 0, 0], [0, 0, 0], [0, 1, 0]]]
   \<and> \<not> edges_zero 3 3 [[0, 0, 0], [0, 0, 0], [0, 1, 0]]"
proof -
  have u0: "u_initial 2 3 3 2 2 2 2 1 1 4 =
              Inr [[[0, 0, 0], [0, 4, 0], [0, 0, 0]], [[0, 0, 0], [0, 0, 0], [0, 0, 0]]]"
    by (simp add: u_initial_def in_defect_def upt_rec)
  have c: "calculate2D (1 / 4) 2 3 3
             [[[0, 0, 0], [0, 4, 0], [0, 0, 0]], [[0, 0, 0], [0, 0, 0], [0, 0, 0]]] =
           Inr [[[0, 0, 0], [0, 4, 0], [0, 0, 0]], [[0, 0, 0], [0, 0, 0], [0, 1, 0]]]"
    by (simp add: calculate2D_def heat_sink_def heat_update_def arr_add_def arr_sub_def
          arr_scale_def image_shift_roll_def np_roll_def upt_rec)
  have e: "\<not> edges_zero 3 3 [[0, 0, 0], [0, 0, 0], [0, 1, 0]]"
    by (simp add: edges_zero_def upt_rec)
  show ?thesis using u0 c e by simp
qed

section \<open>Properties of the depth resampler\<close>

lemma distinct_unique: "distinct (unique xs)"
  by (simp add: unique_def)

lemma set_unique: "set (unique xs) = set xs"
  by (simp add: unique_def)

lemma argmin_from_decreasing:
  "sorted_wrt (>) (best # as) \<Longrightarrow>
   argmin_from as i best best_index = (if as = [] then best_index else i + length as - 1)"
proof (induction as arbitrary: i best best_index)
  case Nil
  then show ?case by simp
next
  case (Cons a as)
  then have "a < best" and "sorted_wrt (>) (a # as)" by auto
  then show ?case using Cons.IH [of a "Suc i" i] by auto
qed

lemma argmin_from_bound:
  "best_index < i \<Longrightarrow> argmin_from as i best best_index < i + length as"
proof (induction as arbitrary: i best best_index)
  case Nil
  then show ?case by simp
next
  case (Cons a as)
  show ?case
    using Cons.IH [of i "Suc i" a] Cons.IH [of best_index "Suc i" best] Cons.prems
    by auto
qed

lemma argmin_bound: "argmin ds = Inr index \<Longrightarrow> index < length ds"
  using argmin_from_bound [of 0 1] by (cases ds) auto

lemma argmin_last:
  assumes "sorted_wrt (<) ts" and "ts \<noteq> []" and "\<forall>t\<in>set ts. t < v"
  shows "argmin (map (\<lambda>t. \<bar>t - v\<bar>) ts) = Inr (length ts - 1)"
proof -
  have "sorted_wrt (>) (map (\<lambda>t. \<bar>t - v\<bar>) ts)"
    using assms(1,3) by (induction ts) auto
  moreover obtain a as where "ts = a # as" using assms(2) by (cases ts) auto
  ultimately show ?thesis
    using argmin_from_decreasing [of "\<bar>a - v\<bar>" "map (\<lambda>t. \<bar>t - v\<bar>) as" 1 0] by auto
qed

lemma resample_value_no_upper:
  assumes "sorted (unique (map col_time df))" and "df \<noteq> []"
    and "\<forall>r\<in>set df. col_time r < v"
  shows "resample_value df v = Returned_None"
proof -
  let ?ts = "unique (map col_time df)"
  have strict: "sorted_wrt (<) ?ts"
    using assms(1) distinct_unique [of "map col_time df"] by (simp add: strict_sorted_iff)
  have ne: "?ts \<noteq> []"
    using assms(2) set_unique [of "map col_time df"] by (cases df) auto
  have below: "\<forall>t\<in>set ?ts. t < v"
    using assms(3) by (auto simp: set_unique)
  then have notin: "v \<notin> set ?ts" by auto
  have last: "\<not> v < ?ts ! (length ?ts - 1)"
    using below ne by (simp add: not_less less_imp_le)
  have len: "\<not> length ?ts - 1 + 1 < length ?ts"
    using ne by simp
  show ?thesis
    using argmin_last [OF strict ne below] notin last len
    by (simp add: resample_value_def Let_def)
qed

lemma interpolate_not_raised:
  assumes "\<forall>r\<in>set df. col_data r \<noteq> None"
    and "start \<in> col_time ` set df" and "stop \<in> col_time ` set df" and "start \<noteq> stop"
  shows "interpolate df v start stop \<noteq> Raised e"
proof -
  let ?valid = "[r \<leftarrow> [r \<leftarrow> df. col_time r = start \<or> col_time r = stop]. col_data r \<noteq> None]"
  have "set (map col_time ?valid) = {start, stop}"
    using assms(1,2,3) by auto
  then have "card (set (map col_time ?valid)) = 2"
    using assms(4) by simp
  then have "length (sort (remdups (map col_time ?valid))) = 2"
    by (simp add: length_remdups_card_conv)
  then show ?thesis
    by (simp add: interpolate_def Let_def)
qed

lemma resample_value_not_raised:
  assumes "\<forall>r\<in>set df. col_data r \<noteq> None" and "2 \<le> length (unique (map col_time df))"
  shows "resample_value df w \<noteq> Raised e"
proof -
  let ?ts = "unique (map col_time df)"
  have d: "distinct ?ts" by (rule distinct_unique)
  have mem: "\<And>i. i < length ?ts \<Longrightarrow> ?ts ! i \<in> col_time ` set df"
    using set_unique [of "map col_time df"] nth_mem [of _ ?ts] by auto
  show ?thesis
  proof (cases "w \<in> set ?ts")
    case True
    then show ?thesis by (simp add: resample_value_def)
  next
    case False
    obtain index where a: "argmin (map (\<lambda>t. \<bar>t - w\<bar>) ?ts) = Inr index"
      using assms(2) by (cases ?ts) auto
    have b: "index < length ?ts" using argmin_bound [OF a] by simp
    let ?j = "if index = 0 then length ?ts - 1 else index - 1"
    have j: "?j < length ?ts" "?j \<noteq> index" using b assms(2) by auto
    have 1: "interpolate df w (?ts ! ?j) (?ts ! index) \<noteq> Raised e"
      using interpolate_not_raised [OF assms(1) mem [OF j(1)] mem [OF b]] j b d
      by (simp add: nth_eq_iff_index_eq)
    have 2: "index + 1 < length ?ts \<Longrightarrow>
               interpolate df w (?ts ! index) (?ts ! (index + 1)) \<noteq> Raised e"
      using interpolate_not_raised [OF assms(1) mem [OF b] mem [of "index + 1"]] b d
      by (simp add: nth_eq_iff_index_eq)
    show ?thesis
      using False a 1 2 by (simp add: resample_value_def Let_def)
  qed
qed

text \<open>
  C2. The claim: a required depth \<open>v\<close> between two samples gets
  \<open>value(t_lo) + (value(t_hi) - value(t_lo)) / (t_hi - t_lo) * (v - t_lo)\<close>. The code
  adds \<open>1 / (t_hi - t_lo) * (value(t_hi) - value(t_lo))\<close>: the factor \<open>v - t_lo\<close> is
  missing. With samples 0 at time 0 and 4 at time 2 in one cell, the depth 1/2 gets 2;
  the linear interpolation is 1.
\<close>

theorem changeDataRes_no_distance_factor:
  "changeDataRes
     [\<lparr>col_time = 0, col_x = 0, col_y = 0, col_data = Some 0\<rparr>,
      \<lparr>col_time = 2, col_x = 0, col_y = 0, col_data = Some 4\<rparr>]
     [1 / 2] =
   Returned [\<lparr>col_time = 1 / 2, col_x = 0, col_y = 0, col_data = Some 2\<rparr>]
   \<and> (0::real) + (4 - 0) / (2 - 0) * (1 / 2 - 0) = 1"
  by (simp add: changeDataRes_def resample_value_def unique_def interpolate_def group_mean_def
        sort_values_def resample_stage_def List.map_filter_simps)

lemma interpolate_not_none: "interpolate df v start stop \<noteq> Returned_None"
  by (simp add: interpolate_def Let_def)

lemma resample_value_none_above:
  assumes "sorted (unique (map col_time df))" and "resample_value df v = Returned_None"
  shows "\<forall>r\<in>set df. col_time r < v"
proof -
  let ?ts = "unique (map col_time df)"
  have notin: "v \<notin> set ?ts"
    using assms(2) by (auto simp: resample_value_def Let_def)
  obtain index where a: "argmin (map (\<lambda>t. \<bar>t - v\<bar>) ?ts) = Inr index"
    using assms(2) notin by (cases "argmin (map (\<lambda>t. \<bar>t - v\<bar>) ?ts)") (auto simp: resample_value_def Let_def)
  have b: "index < length ?ts" using argmin_bound [OF a] by simp
  have c: "\<not> v < ?ts ! index" and d: "\<not> index + 1 < length ?ts"
    using assms(2) notin a interpolate_not_none
    by (auto simp: resample_value_def Let_def split: if_splits)
  have last: "?ts ! index < v"
    using c notin nth_mem [OF b] by (metis not_less_iff_gr_or_eq)
  show ?thesis
  proof
    fix r assume "r \<in> set df"
    then have "col_time r \<in> set ?ts" by (simp add: set_unique)
    then obtain i where i: "i < length ?ts" "?ts ! i = col_time r"
      by (auto simp: in_set_conv_nth)
    have "i \<le> index" using i(1) d by simp
    then have "?ts ! i \<le> ?ts ! index"
      using assms(1) b by (simp add: sorted_nth_mono)
    then show "col_time r < v" using last i(2) by simp
  qed
qed

lemma resample_value_single_sample:
  assumes "length (unique (map col_time df)) < 2" and "r \<in> set df" and "col_time r \<le> w"
  shows "resample_value df w \<noteq> Raised e"
proof -
  let ?ts = "unique (map col_time df)"
  have "col_time r \<in> set ?ts" using assms(2) by (simp add: set_unique)
  then have ts: "?ts = [col_time r]"
    using assms(1) by (cases ?ts) (auto simp: less_Suc_eq)
  show ?thesis
    using assms(3) by (simp add: resample_value_def ts Let_def)
qed

lemma resample_value_covered:
  assumes "\<forall>r\<in>set df. col_data r \<noteq> None"
    and "2 \<le> length (unique (map col_time df)) \<or> (\<exists>r\<in>set df. col_time r \<le> w)"
  shows "resample_value df w \<noteq> Raised e"
proof (cases "2 \<le> length (unique (map col_time df))")
  case True
  then show ?thesis using resample_value_not_raised [OF assms(1)] by blast
next
  case False
  then obtain r where "r \<in> set df" and "col_time r \<le> w" using assms(2) by blast
  then show ?thesis using resample_value_single_sample [of df r w e] False by simp
qed

lemma loop_none_at:
  "changeDataRes_loop df series df_tmp = Returned_None \<Longrightarrow>
   \<exists>v\<in>set series. resample_value df v = Returned_None"
  by (induction series arbitrary: df_tmp) (auto split: change_result.splits)

lemma loop_returned_none:
  "(\<And>w e. w \<in> set series \<Longrightarrow> resample_value df w \<noteq> Raised e) \<Longrightarrow>
   v \<in> set series \<Longrightarrow> resample_value df v = Returned_None \<Longrightarrow>
   changeDataRes_loop df series df_tmp = Returned_None"
proof (induction series arbitrary: df_tmp)
  case Nil
  then show ?case by simp
next
  case (Cons a series)
  show ?case
  proof (cases "resample_value df a")
    case (Returned rows)
    then have "v \<in> set series" using Cons.prems(2,3) by auto
    then show ?thesis using Cons.IH [of "df_tmp @ rows"] Cons.prems(1,3) Returned by simp
  next
    case Returned_None
    then show ?thesis by simp
  next
    case (Raised e)
    then show ?thesis using Cons.prems(1) [of a e] by simp
  qed
qed

text \<open>
  C9, as stated, fails when the samples cover a single time and a required depth lies
  below it. One sample, at time 2, and the required depths 1 and 3: the depth 3 is not
  a sampled time and no sampled time lies above it. The depth 1 comes first; its
  nearest sample lies above it, the index before wraps around to the same sample, the
  pivot table of the bracket has one column, and \<open>columns[1]\<close> raises
  \<open>IndexError\<close>. No message is printed.
\<close>

theorem single_sample_no_message:
  "(3::real) \<in> set [1, 3]
   \<and> 3 \<notin> set (unique (map col_time [\<lparr>col_time = 2, col_x = 0, col_y = 0, col_data = Some 4\<rparr>]))
   \<and> \<not> list_ex (\<lambda>t. 3 < t)
         (unique (map col_time [\<lparr>col_time = 2, col_x = 0, col_y = 0, col_data = Some 4\<rparr>]))
   \<and> changeDataRes [\<lparr>col_time = 2, col_x = 0, col_y = 0, col_data = Some 4\<rparr>] [1, 3] =
       Raised IndexError
   \<and> resample_stage [\<lparr>col_time = 2, col_x = 0, col_y = 0, col_data = Some 4\<rparr>] [1, 3] =
       Inl IndexError"
  by (simp add: changeDataRes_def resample_value_def unique_def interpolate_def group_mean_def
        sort_values_def resample_stage_def List.map_filter_simps)

text \<open>
  C9, amended. The sampled times are in ascending order, every sampled cell holds a
  number, and there are at least two sampled times or every required depth has a
  sampled time at or below it. Then the resampler prints the message and returns
  \<open>None\<close> if and only if some required depth of the series lies strictly above every
  sampled time (it is then not a sampled time, and has no sampled time above it); and
  when such a depth is among the depths the caller passes (those that are not
  negative), the caller's \<open>.copy()\<close> on \<open>None\<close> raises, which ends the run.
\<close>

theorem no_upper_bracket_message:
  assumes "sorted (unique (map col_time df))"
    and "\<forall>r\<in>set df. col_data r \<noteq> None"
    and "2 \<le> length (unique (map col_time df))
         \<or> (\<forall>v\<in>set series. \<exists>r\<in>set df. col_time r \<le> v)"
  shows "(changeDataRes df series = Returned_None) =
           (\<exists>v\<in>set series. \<forall>r\<in>set df. col_time r < v)
       \<and> ((\<exists>v\<in>set series. 0 \<le> v \<and> (\<forall>r\<in>set df. col_time r < v)) \<longrightarrow>
            resample_stage df series = Inl AttributeError)"
proof -
  have iff: "(changeDataRes df s = Returned_None) = (\<exists>v\<in>set s. \<forall>r\<in>set df. col_time r < v)"
    if sub: "set s \<subseteq> set series" for s
  proof
    assume "changeDataRes df s = Returned_None"
    then have "changeDataRes_loop df s [] = Returned_None"
      by (auto simp: changeDataRes_def split: change_result.splits if_splits)
    then obtain v where "v \<in> set s" and "resample_value df v = Returned_None"
      using loop_none_at by blast
    then show "\<exists>v\<in>set s. \<forall>r\<in>set df. col_time r < v"
      using resample_value_none_above [OF assms(1)] by blast
  next
    assume "\<exists>v\<in>set s. \<forall>r\<in>set df. col_time r < v"
    then obtain v where v: "v \<in> set s" and above: "\<forall>r\<in>set df. col_time r < v" by blast
    have ne: "df \<noteq> []"
    proof (cases "2 \<le> length (unique (map col_time df))")
      case True
      then show ?thesis by (auto simp: unique_def)
    next
      case False
      then show ?thesis using assms(3) v sub by auto
    qed
    have nr: "resample_value df w \<noteq> Raised e" if "w \<in> set s" for w e
      using resample_value_covered [OF assms(2), of w e] assms(3) that sub by blast
    have "resample_value df v = Returned_None"
      using resample_value_no_upper [OF assms(1) ne above] .
    then have "changeDataRes_loop df s [] = Returned_None"
      using loop_returned_none [of s df v "[]"] nr v by blast
    then show "changeDataRes df s = Returned_None"
      by (simp add: changeDataRes_def)
  qed
  have stage: "resample_stage df series = Inl AttributeError"
    if "\<exists>v\<in>set series. 0 \<le> v \<and> (\<forall>r\<in>set df. col_time r < v)"
  proof -
    from that have "\<exists>v\<in>set [t \<leftarrow> series. t \<ge> 0]. \<forall>r\<in>set df. col_time r < v" by auto
    then have "changeDataRes df [t \<leftarrow> series. t \<ge> 0] = Returned_None"
      using iff [of "[t \<leftarrow> series. t \<ge> 0]"] by simp
    then show ?thesis by (simp add: resample_stage_def)
  qed
  show ?thesis using iff [of series] stage by blast
qed

theorem no_upper_bracket_message_witness:
  "sorted (unique (map col_time
     [\<lparr>col_time = 0, col_x = 0, col_y = 0, col_data = Some 0\<rparr>,
      \<lparr>col_time = 2, col_x = 0, col_y = 0, col_data = Some 4\<rparr>]))
   \<and> list_all (\<lambda>r. col_data r \<noteq> None)
     [\<lparr>col_time = 0, col_x = 0, col_y = 0, col_data = Some 0\<rparr>,
      \<lparr>col_time = 2, col_x = 0, col_y = 0, col_data = Some 4\<rparr>]
   \<and> 2 \<le> length (unique (map col_time
     [\<lparr>col_time = 0, col_x = 0, col_y = 0, col_data = Some 0\<rparr>,
      \<lparr>col_time = 2, col_x = 0, col_y = 0, col_data = Some 4\<rparr>]))
   \<and> changeDataRes
     [\<lparr>col_time = 0, col_x = 0, col_y = 0, col_data = Some 0\<rparr>,
      \<lparr>col_time = 2, col_x = 0, col_y = 0, col_data = Some 4\<rparr>]
     [1, 3] = Returned_None
   \<and> resample_stage
     [\<lparr>col_time = 0, col_x = 0, col_y = 0, col_data = Some 0\<rparr>,
      \<lparr>col_time = 2, col_x = 0, col_y = 0, col_data = Some 4\<rparr>]
     [1, 3] = Inl AttributeError
   \<and> changeDataRes
     [\<lparr>col_time = 0, col_x = 0, col_y = 0, col_data = Some 0\<rparr>,
      \<lparr>col_time = 2, col_x = 0, col_y = 0, col_data = Some 4\<rparr>]
     [1, 2] \<noteq> Returned_None
   \<and> list_all (\<lambda>v. list_ex (\<lambda>r. col_time r \<le> v)
         [\<lparr>col_time = 2, col_x = 0, col_y = 0, col_data = Some 4\<rparr>]) [2, 3]
   \<and> changeDataRes [\<lparr>col_time = 2, col_x = 0, col_y = 0, col_data = Some 4\<rparr>] [2, 3] =
       Returned_None"
  using no_upper_bracket_message
    [of "[\<lparr>col_time = 0, col_x = 0, col_y = 0, col_data = Some 0\<rparr>,
      \<lparr>col_time = 2, col_x = 0, col_y = 0, col_data = Some 4\<rparr>]" "[1, 3]"]
    no_upper_bracket_message
    [of "[\<lparr>col_time = 0, col_x = 0, col_y = 0, col_data = Some 0\<rparr>,
      \<lparr>col_time = 2, col_x = 0, col_y = 0, col_data = Some 4\<rparr>]" "[1, 2]"]
    no_upper_bracket_message
    [of "[\<lparr>col_time = 2, col_x = 0, col_y = 0, col_data = Some 4\<rparr>]" "[2, 3]"]
  by (simp add: unique_def)

section \<open>Properties of the overlap resolver\<close>











text \<open>Evaluation: the definitions of the resolver, and the one-cell frames used below.\<close>

lemmas overlap_eval =
  detectOverwriteOverlap_def overlap_loop.simps overlap_passes.simps overlap_detected_def
  resolve_line_def slice_def unique_def add_time_def sub_time_def
  series_subtract_fill0_def series_average_def series_min_def min_skipna_def set_data_def
  cell_at_def fillna0_def sort_values_def List.map_filter_simps upt_rec Let_def
  overlapping_pairs_def detections_def

lemma frame_a:
  "one_cell_frame [0, 5, 0] =
     [\<lparr>col_time = 0, col_x = 0, col_y = 0, col_data = Some 0\<rparr>,
      \<lparr>col_time = 1, col_x = 0, col_y = 0, col_data = Some 5\<rparr>,
      \<lparr>col_time = 2, col_x = 0, col_y = 0, col_data = Some 0\<rparr>]"
  by (simp add: one_cell_frame_def upt_rec)

lemma frame_b:
  "one_cell_frame [0, 10, 0, 0, 0] =
     [\<lparr>col_time = 0, col_x = 0, col_y = 0, col_data = Some 0\<rparr>,
      \<lparr>col_time = 1, col_x = 0, col_y = 0, col_data = Some 10\<rparr>,
      \<lparr>col_time = 2, col_x = 0, col_y = 0, col_data = Some 0\<rparr>,
      \<lparr>col_time = 3, col_x = 0, col_y = 0, col_data = Some 0\<rparr>,
      \<lparr>col_time = 4, col_x = 0, col_y = 0, col_data = Some 0\<rparr>]"
  by (simp add: one_cell_frame_def upt_rec)

lemma frame_c:
  "one_cell_frame [0, 3 / 2, 0, 0, 3 / 2, 0, 0, 0] =
     [\<lparr>col_time = 0, col_x = 0, col_y = 0, col_data = Some 0\<rparr>,
      \<lparr>col_time = 1, col_x = 0, col_y = 0, col_data = Some (3 / 2)\<rparr>,
      \<lparr>col_time = 2, col_x = 0, col_y = 0, col_data = Some 0\<rparr>,
      \<lparr>col_time = 3, col_x = 0, col_y = 0, col_data = Some 0\<rparr>,
      \<lparr>col_time = 4, col_x = 0, col_y = 0, col_data = Some (3 / 2)\<rparr>,
      \<lparr>col_time = 5, col_x = 0, col_y = 0, col_data = Some 0\<rparr>,
      \<lparr>col_time = 6, col_x = 0, col_y = 0, col_data = Some 0\<rparr>,
      \<lparr>col_time = 7, col_x = 0, col_y = 0, col_data = Some 0\<rparr>]"
  by (simp add: one_cell_frame_def upt_rec)

lemma frame_d:
  "one_cell_frame [0, 5, 0, 0, 0, 0, 0] =
     [\<lparr>col_time = 0, col_x = 0, col_y = 0, col_data = Some 0\<rparr>,
      \<lparr>col_time = 1, col_x = 0, col_y = 0, col_data = Some 5\<rparr>,
      \<lparr>col_time = 2, col_x = 0, col_y = 0, col_data = Some 0\<rparr>,
      \<lparr>col_time = 3, col_x = 0, col_y = 0, col_data = Some 0\<rparr>,
      \<lparr>col_time = 4, col_x = 0, col_y = 0, col_data = Some 0\<rparr>,
      \<lparr>col_time = 5, col_x = 0, col_y = 0, col_data = Some 0\<rparr>,
      \<lparr>col_time = 6, col_x = 0, col_y = 0, col_data = Some 0\<rparr>]"
  by (simp add: one_cell_frame_def upt_rec)

lemma frame_f:
  "one_cell_frame [0, 3 / 2, 3 / 4, 0, 3 / 2, 3 / 4, 0, 0] =
     [\<lparr>col_time = 0, col_x = 0, col_y = 0, col_data = Some 0\<rparr>,
      \<lparr>col_time = 1, col_x = 0, col_y = 0, col_data = Some (3 / 2)\<rparr>,
      \<lparr>col_time = 2, col_x = 0, col_y = 0, col_data = Some (3 / 4)\<rparr>,
      \<lparr>col_time = 3, col_x = 0, col_y = 0, col_data = Some 0\<rparr>,
      \<lparr>col_time = 4, col_x = 0, col_y = 0, col_data = Some (3 / 2)\<rparr>,
      \<lparr>col_time = 5, col_x = 0, col_y = 0, col_data = Some (3 / 4)\<rparr>,
      \<lparr>col_time = 6, col_x = 0, col_y = 0, col_data = Some 0\<rparr>,
      \<lparr>col_time = 7, col_x = 0, col_y = 0, col_data = Some 0\<rparr>]"
  by (simp add: one_cell_frame_def upt_rec)

lemma frame_e:
  "one_cell_frame [5, 0, - 3, 0, 0, 0, 0, 0] =
     [\<lparr>col_time = 0, col_x = 0, col_y = 0, col_data = Some 5\<rparr>,
      \<lparr>col_time = 1, col_x = 0, col_y = 0, col_data = Some 0\<rparr>,
      \<lparr>col_time = 2, col_x = 0, col_y = 0, col_data = Some (- 3)\<rparr>,
      \<lparr>col_time = 3, col_x = 0, col_y = 0, col_data = Some 0\<rparr>,
      \<lparr>col_time = 4, col_x = 0, col_y = 0, col_data = Some 0\<rparr>,
      \<lparr>col_time = 5, col_x = 0, col_y = 0, col_data = Some 0\<rparr>,
      \<lparr>col_time = 6, col_x = 0, col_y = 0, col_data = Some 0\<rparr>,
      \<lparr>col_time = 7, col_x = 0, col_y = 0, col_data = Some 0\<rparr>]"
  by (simp add: one_cell_frame_def upt_rec)








lemma frame_g:
  "one_cell_frame [0, 5, 0, 0] =
     [\<lparr>col_time = 0, col_x = 0, col_y = 0, col_data = Some 0\<rparr>,
      \<lparr>col_time = 1, col_x = 0, col_y = 0, col_data = Some 5\<rparr>,
      \<lparr>col_time = 2, col_x = 0, col_y = 0, col_data = Some 0\<rparr>,
      \<lparr>col_time = 3, col_x = 0, col_y = 0, col_data = Some 0\<rparr>]"
  by (simp add: one_cell_frame_def upt_rec)

lemma frame_h:
  "one_cell_frame [0, 5, 5 / 2, 0] =
     [\<lparr>col_time = 0, col_x = 0, col_y = 0, col_data = Some 0\<rparr>,
      \<lparr>col_time = 1, col_x = 0, col_y = 0, col_data = Some 5\<rparr>,
      \<lparr>col_time = 2, col_x = 0, col_y = 0, col_data = Some (5 / 2)\<rparr>,
      \<lparr>col_time = 3, col_x = 0, col_y = 0, col_data = Some 0\<rparr>]"
  by (simp add: one_cell_frame_def upt_rec)

text \<open>
  C4. The claim: every adjacent pair of consecutive slices is examined for an overlap
  (some cell where the current slice's intensity plus depth is less than the previous
  slice's), the pair of the last two slices included. The loop runs while
  \<open>counter_line <= len(df_input.time.unique()) - 2\<close>, and the last slice is appended
  after it, unchecked. Three one-cell slices with the intensities 0, 5, 0 at the depths
  0, 1, 2: the last pair overlaps (the last slice lies at height 0 + 2, below the height
  5 + 1 of the slice before), the walk has one pass, at line 1, which tests the first
  pair, and the input is returned as it is. With a fourth slice behind them the same
  pair is no longer the last one: the pass at line 2 detects its overlap and replaces
  the intensity 0 by the average 5 / 2.
\<close>

theorem last_pair_overlap_accepted:
  "overlap_detected (one_cell_frame [0, 5, 0]) (unique (map col_time (one_cell_frame [0, 5, 0]))) 2 (one_cell_frame [0, 5, 0])
   \<and> overlap_passes (one_cell_frame [0, 5, 0]) (unique (map col_time (one_cell_frame [0, 5, 0]))) 1 0 (slice (one_cell_frame [0, 5, 0]) 0) =
       [(1, False)]
   \<and> detectOverwriteOverlap (one_cell_frame [0, 5, 0]) = Inr (one_cell_frame [0, 5, 0])
   \<and> overlap_passes (one_cell_frame [0, 5, 0, 0]) (unique (map col_time (one_cell_frame [0, 5, 0, 0]))) 1 0 (slice (one_cell_frame [0, 5, 0, 0]) 0) =
       [(1, False), (2, True)]
   \<and> detectOverwriteOverlap (one_cell_frame [0, 5, 0, 0]) = Inr (one_cell_frame [0, 5, 5 / 2, 0])"
proof -
  have a: "overlap_detected (one_cell_frame [0, 5, 0]) (unique (map col_time (one_cell_frame [0, 5, 0]))) 2 (one_cell_frame [0, 5, 0])
   \<and> overlap_passes (one_cell_frame [0, 5, 0]) (unique (map col_time (one_cell_frame [0, 5, 0]))) 1 0 (slice (one_cell_frame [0, 5, 0]) 0) =
       [(1, False)]
   \<and> detectOverwriteOverlap (one_cell_frame [0, 5, 0]) = Inr (one_cell_frame [0, 5, 0])"
    by (simp add: frame_a overlap_eval)
  have b: "overlap_passes (one_cell_frame [0, 5, 0, 0]) (unique (map col_time (one_cell_frame [0, 5, 0, 0]))) 1 0 (slice (one_cell_frame [0, 5, 0, 0]) 0) =
       [(1, False), (2, True)]"
    by (simp add: frame_g overlap_eval)
  have c: "detectOverwriteOverlap (one_cell_frame [0, 5, 0, 0]) = Inr (one_cell_frame [0, 5, 5 / 2, 0])"
    by (simp add: frame_g frame_h overlap_eval)
  show ?thesis using a b c by blast
qed

text \<open>
  A pass on aligned slices. When the slice the output holds for the depth before, the
  current slice and the next slice hold a number in each of the same number of cells,
  the test of the pass succeeds exactly when some cell of the current slice lies lower
  (intensity plus depth) than the same cell of the previous slice; an overlap at line 1
  replaces the output by the previous slice with the cell by cell minimum of the two
  intensities; an overlap at a later line appends the current slice with the cell by
  cell average of the previous and the next slice; without an overlap the current
  slice is appended as it is.
\<close>

lemma slice_time: "r \<in> set (slice df t) \<Longrightarrow> col_time r = t"
  by (simp add: slice_def)

lemma sub_add_time: "sub_time (add_time rows) = rows"
  by (induction rows) (simp_all add: sub_time_def add_time_def option.map_comp comp_def option.map_ident)

lemma add_time_data:
  assumes "\<forall>r\<in>set rows. col_time r = t" and "map col_data rows = map Some xs"
  shows "map col_data (add_time rows) = map (\<lambda>x. Some (x + t)) xs"
  using assms
proof (induction rows arbitrary: xs)
  case Nil
  then show ?case by (simp add: add_time_def)
next
  case (Cons r rows)
  then obtain x xs' where xs: "xs = x # xs'" by (cases xs) auto
  have "map col_data (add_time rows) = map (\<lambda>x. Some (x + t)) xs'"
    using Cons xs by simp
  then show ?case
    using Cons.prems xs by (simp add: add_time_def)
qed

lemma series_subtract_aligned:
  assumes "length a = length b"
  shows "series_subtract_fill0 (map Some a) (map Some b) = map (\<lambda>i. Some (a ! i - b ! i)) [0..<length a]"
  using assms by (simp add: series_subtract_fill0_def cell_at_def fillna0_def)

lemma series_average_aligned:
  assumes "length a = length b"
  shows "series_average (map Some a) (map Some b) = map (\<lambda>i. Some ((a ! i + b ! i) / 2)) [0..<length a]"
  using assms by (simp add: series_average_def cell_at_def)

lemma map_filter_Some: "List.map_filter id (map Some xs) = xs"
  by (induction xs) (simp_all add: List.map_filter_simps)

lemma fold_min_less:
  "(fold min vs v < (c::real)) = (v < c \<or> (\<exists>x\<in>set vs. x < c))"
  by (induction vs arbitrary: v) (auto simp: min_less_iff_disj)

lemma series_min_negative:
  "(case series_min (map Some xs) of None \<Rightarrow> False | Some m \<Rightarrow> m < 0) = (\<exists>x\<in>set xs. x < 0)"
  by (cases xs) (simp_all add: series_min_def map_filter_Some fold_min_less List.map_filter_simps)


lemma overlap_detected_aligned:
  assumes prev: "map col_data (slice df_output (ts ! (k - 1))) = map Some ps"
    and cur: "map col_data (slice df_input (ts ! k)) = map Some cs"
    and len: "length ps = length cs"
  shows "overlap_detected df_input ts k df_output =
           (\<exists>i<length cs. cs ! i + ts ! k < ps ! i + ts ! (k - 1))"
proof -
  have p: "map col_data (add_time (slice df_output (ts ! (k - 1)))) =
             map Some (map (\<lambda>x. x + ts ! (k - 1)) ps)"
    using add_time_data [OF _ prev, of "ts ! (k - 1)"] by (simp add: slice_time)
  have c: "map col_data (add_time (slice df_input (ts ! k))) = map Some (map (\<lambda>x. x + ts ! k) cs)"
    using add_time_data [OF _ cur, of "ts ! k"] by (simp add: slice_time)
  have d: "series_subtract_fill0 (map Some (map (\<lambda>x. x + ts ! k) cs))
             (map Some (map (\<lambda>x. x + ts ! (k - 1)) ps)) =
           map Some (map (\<lambda>i. (cs ! i + ts ! k) - (ps ! i + ts ! (k - 1))) [0..<length cs])"
    using series_subtract_aligned [of "map (\<lambda>x. x + ts ! k) cs" "map (\<lambda>x. x + ts ! (k - 1)) ps"] len
    by simp
  show ?thesis
    unfolding overlap_detected_def Let_def p c d series_min_negative
    by auto
qed

lemma resolve_line_aligned:
  assumes prev: "map col_data (slice df_output (ts ! (k - 1))) = map Some ps"
    and cur: "map col_data (slice df_input (ts ! k)) = map Some cs"
    and nxt: "map col_data (slice df_input (ts ! (k + 1))) = map Some ns"
    and len: "length ps = length cs" "length ns = length cs"
  shows "resolve_line df_input ts k df_output =
     (if \<exists>i<length cs. cs ! i + ts ! k < ps ! i + ts ! (k - 1) then
        if k = 1 then
          map (\<lambda>i. (slice df_output (ts ! (k - 1)) ! i)\<lparr>col_data := Some (min (ps ! i) (cs ! i))\<rparr>)
            [0..<length cs]
        else
          df_output @
          map (\<lambda>i. (slice df_input (ts ! k) ! i)\<lparr>col_data := Some ((ps ! i + ns ! i) / 2)\<rparr>)
            [0..<length cs]
      else df_output @ slice df_input (ts ! k))"
proof -
  have lp: "length (slice df_output (ts ! (k - 1))) = length cs"
    using prev len(1) by (metis length_map)
  have lc: "length (slice df_input (ts ! k)) = length cs"
    using cur by (metis length_map)
  have pd: "\<And>i. i < length cs \<Longrightarrow> col_data (slice df_output (ts ! (k - 1)) ! i) = Some (ps ! i)"
    using prev lp len(1) by (metis nth_map)
  have a: "series_average (map Some ps) (map Some ns) =
             map (\<lambda>i. Some ((ps ! i + ns ! i) / 2)) [0..<length cs]"
    using series_average_aligned [of ps ns] len by simp
  have first:
    "set_data (slice df_output (ts ! (k - 1)))
       (map (\<lambda>i. min_skipna (col_data (slice df_output (ts ! (k - 1)) ! i)) (cell_at (map Some cs) i))
          [0..<length (slice df_output (ts ! (k - 1)))]) =
     map (\<lambda>i. (slice df_output (ts ! (k - 1)) ! i)\<lparr>col_data := Some (min (ps ! i) (cs ! i))\<rparr>)
       [0..<length cs]"
    using lp pd by (simp add: set_data_def cell_at_def min_skipna_def)
  have later:
    "set_data (slice df_input (ts ! k)) (map (\<lambda>i. Some ((ps ! i + ns ! i) / 2)) [0..<length cs]) =
     map (\<lambda>i. (slice df_input (ts ! k) ! i)\<lparr>col_data := Some ((ps ! i + ns ! i) / 2)\<rparr>)
       [0..<length cs]"
    by (simp add: set_data_def lc cell_at_def)
  show ?thesis
    unfolding resolve_line_def Let_def sub_add_time
      overlap_detected_aligned [OF prev cur len(1)] prev cur nxt a first later
    by simp
qed

text \<open>
  C5. The claim: an overlap flagged on a later pair replaces the current slice's
  intensity with the average of the preceding and the following slice. After an
  overlap on the first pair the output holds the merged first slice only (the branch
  does not append the current slice), so the pass at line 2 finds no previous slice:
  its test compares the current heights with 0, and when it flags an overlap the
  average with the missing slice is missing in every cell. Eight one-cell slices with
  the intensities 5, 0, -3, 0, ...: the slice at depth 1 is absent from the result
  and the slice at depth 2 holds no number, where the average of its neighbours is 0.
\<close>

theorem first_merge_drops_previous_slice:
  "detectOverwriteOverlap (one_cell_frame [5, 0, - 3, 0, 0, 0, 0, 0]) =
     Inr [\<lparr>col_time = 0, col_x = 0, col_y = 0, col_data = Some 0\<rparr>,
          \<lparr>col_time = 2, col_x = 0, col_y = 0, col_data = None\<rparr>,
          \<lparr>col_time = 3, col_x = 0, col_y = 0, col_data = Some 0\<rparr>,
          \<lparr>col_time = 4, col_x = 0, col_y = 0, col_data = Some 0\<rparr>,
          \<lparr>col_time = 5, col_x = 0, col_y = 0, col_data = Some 0\<rparr>,
          \<lparr>col_time = 6, col_x = 0, col_y = 0, col_data = Some 0\<rparr>,
          \<lparr>col_time = 7, col_x = 0, col_y = 0, col_data = Some 0\<rparr>]
   \<and> overlap_passes (one_cell_frame [5, 0, - 3, 0, 0, 0, 0, 0]) (unique (map col_time (one_cell_frame [5, 0, - 3, 0, 0, 0, 0, 0]))) 1 0
       (slice (one_cell_frame [5, 0, - 3, 0, 0, 0, 0, 0]) 0) =
     [(1, True), (2, True), (3, False), (4, False), (5, False), (6, False)]"
  by (simp add: frame_a frame_b frame_c frame_d frame_e frame_f overlap_eval)

section \<open>Properties of the mask classifier\<close>

lemma mark_inside_fold:
  "fold (\<lambda>poly df_xy.
           map (\<lambda>(p, inside_polygon). (p, if inside_polygon then True else poly p)) df_xy)
     polygons (map (\<lambda>p. (p, g p)) points) =
   map (\<lambda>p. (p, g p \<or> inside_some_polygon polygons p)) points"
proof (induction polygons arbitrary: g)
  case Nil
  then show ?case by (simp add: inside_some_polygon_def)
next
  case (Cons poly polygons)
  let ?F = "\<lambda>poly df_xy.
     map (\<lambda>(p, inside_polygon). (p, if inside_polygon then True else poly p)) df_xy"
  have step: "?F poly (map (\<lambda>p. (p, g p)) points) = map (\<lambda>p. (p, g p \<or> poly p)) points"
    by simp
  have "fold ?F (poly # polygons) (map (\<lambda>p. (p, g p)) points) =
          fold ?F polygons (?F poly (map (\<lambda>p. (p, g p)) points))"
    by simp
  also have "\<dots> = fold ?F polygons (map (\<lambda>p. (p, g p \<or> poly p)) points)"
    by (simp only: step)
  also have "\<dots> = map (\<lambda>p. (p, (g p \<or> poly p) \<or> inside_some_polygon polygons p)) points"
    by (rule Cons.IH)
  also have "\<dots> = map (\<lambda>p. (p, g p \<or> inside_some_polygon (poly # polygons) p)) points"
    by (simp add: inside_some_polygon_def)
  finally show ?case .
qed

lemma mark_inside_eq:
  "mark_inside polygons points = map (\<lambda>p. (p, inside_some_polygon polygons p)) points"
  using mark_inside_fold [of polygons "\<lambda>_. False" points] by (simp add: mark_inside_def)

lemma lookup_distinct:
  "distinct points \<Longrightarrow> q \<in> set points \<Longrightarrow>
   [b. (p, b) \<leftarrow> map (\<lambda>p. (p, h p)) points, p = q] = [h q]"
proof (induction points)
  case Nil
  then show ?case by simp
next
  case (Cons a points)
  have none: "q \<notin> set points \<Longrightarrow> [b. (p, b) \<leftarrow> map (\<lambda>p. (p, h p)) points, p = q] = []"
    by (induction points) auto
  show ?case
  proof (cases "a = q")
    case True
    then show ?thesis using Cons.prems none by simp
  next
    case False
    then show ?thesis using Cons by simp
  qed
qed

lemma df_xy_points_distinct: "distinct (df_xy_points df_total)"
  by (simp add: df_xy_points_def distinct_unique)

lemma df_xy_points_set: "set (df_xy_points df_total) = (\<lambda>r. (v_x r, v_y r)) ` set df_total"
  by (simp add: df_xy_points_def set_unique)

lemma merge_left_points:
  assumes "distinct points" and "\<forall>r\<in>set rows. (v_x r, v_y r) \<in> set points"
  shows "merge_left rows (map (\<lambda>p. (p, h p)) points) =
           map (\<lambda>r. (r, Some (h (v_x r, v_y r)))) rows"
  using assms(2)
proof (induction rows)
  case Nil
  then show ?case by (simp add: merge_left_def)
next
  case (Cons r rows)
  have "(v_x r, v_y r) \<in> set points"
    using Cons.prems by simp
  from lookup_distinct [OF assms(1) this, of h]
  have one: "[b. (p, b) \<leftarrow> map (\<lambda>p. (p, h p)) points, p = (v_x r, v_y r)] = [h (v_x r, v_y r)]" .
  have rest: "merge_left rows (map (\<lambda>p. (p, h p)) points) =
                map (\<lambda>r. (r, Some (h (v_x r, v_y r)))) rows"
    using Cons by simp
  have "merge_left (r # rows) (map (\<lambda>p. (p, h p)) points) =
          (case [b. (p, b) \<leftarrow> map (\<lambda>p. (p, h p)) points, p = (v_x r, v_y r)] of
             [] \<Rightarrow> [(r, None)]
           | bs \<Rightarrow> map (\<lambda>b. (r, Some b)) bs) @
          merge_left rows (map (\<lambda>p. (p, h p)) points)"
    by (simp add: merge_left_def)
  then show ?case
    by (simp only: one rest) simp
qed

text \<open>
  C7. The classified table is the rows whose material is not an absorber material, as
  they are, followed by the rows whose material is one, each once and in order, with
  the material replaced by \<open>air\<close> if and only if the containment result of the row's
  point equals the tone flag.
\<close>

theorem apply_mask_absorber_rows:
  "apply_mask absorber_layers pos_tone polygons df_total =
     [r \<leftarrow> df_total. \<not> is_absorber absorber_layers r] @
     map (\<lambda>r. if inside_some_polygon polygons (v_x r, v_y r) = pos_tone
               then r\<lparr>v_material := Some ''air''\<rparr> else r)
       [r \<leftarrow> df_total. is_absorber absorber_layers r]"
proof -
  have pts: "\<forall>r\<in>set [r \<leftarrow> df_total. is_absorber absorber_layers r].
               (v_x r, v_y r) \<in> set (df_xy_points df_total)"
    by (auto simp: df_xy_points_set)
  have m: "merge_left [r \<leftarrow> df_total. is_absorber absorber_layers r]
             (mark_inside polygons (df_xy_points df_total)) =
           map (\<lambda>r. (r, Some (inside_some_polygon polygons (v_x r, v_y r))))
             [r \<leftarrow> df_total. is_absorber absorber_layers r]"
    unfolding mark_inside_eq
    by (rule merge_left_points [OF df_xy_points_distinct pts])
  show ?thesis
    by (simp add: apply_mask_def m Let_def comp_def)
qed

theorem apply_mask_absorber_rows_witness:
  "apply_mask [''TaN''] True [\<lambda>p. True]
     [\<lparr>v_x = 0, v_y = 0, v_data = 1, v_layer_number = Some 1, v_material = Some ''Si'',
        v_thickness = Some 1\<rparr>,
      \<lparr>v_x = 0, v_y = 0, v_data = 2, v_layer_number = Some 2, v_material = Some ''TaN'',
        v_thickness = Some 1\<rparr>] =
     [\<lparr>v_x = 0, v_y = 0, v_data = 1, v_layer_number = Some 1, v_material = Some ''Si'',
        v_thickness = Some 1\<rparr>,
      \<lparr>v_x = 0, v_y = 0, v_data = 2, v_layer_number = Some 2, v_material = Some ''air'',
        v_thickness = Some 1\<rparr>]
   \<and> apply_mask [''TaN''] False [\<lambda>p. True]
     [\<lparr>v_x = 0, v_y = 0, v_data = 1, v_layer_number = Some 1, v_material = Some ''Si'',
        v_thickness = Some 1\<rparr>,
      \<lparr>v_x = 0, v_y = 0, v_data = 2, v_layer_number = Some 2, v_material = Some ''TaN'',
        v_thickness = Some 1\<rparr>] =
     [\<lparr>v_x = 0, v_y = 0, v_data = 1, v_layer_number = Some 1, v_material = Some ''Si'',
        v_thickness = Some 1\<rparr>,
      \<lparr>v_x = 0, v_y = 0, v_data = 2, v_layer_number = Some 2, v_material = Some ''TaN'',
        v_thickness = Some 1\<rparr>]"
  by (simp add: apply_mask_absorber_rows is_absorber_def inside_some_polygon_def)

end
